theory Spec2Isabelle
  imports Main "HOL-Library.Sublist"
begin

section \<open>Strings and JavaScript values\<close>

text \<open>
  JavaScript strings are modelled as \<^typ>\<open>string\<close>. Every operation the screen applies to
  them (template literals, \<^verbatim>\<open>slice\<close>, \<^verbatim>\<open>replace\<close>) works position by position, so the
  width of a character does not matter. A value of type \<^verbatim>\<open>string | null\<close> is a
  \<^typ>\<open>string option\<close>; \<^verbatim>\<open>!v\<close> holds for \<^verbatim>\<open>null\<close> and for the empty string.
\<close>

definition truthy :: "string option \<Rightarrow> bool" where
  "truthy v = (case v of None \<Rightarrow> False | Some s \<Rightarrow> s \<noteq> [])"

text \<open>
  \<^verbatim>\<open>s.replace(pat, rep)\<close> with a string pattern: the first occurrence of \<^verbatim>\<open>pat\<close> is replaced,
  and \<^verbatim>\<open>s\<close> is returned as it is when there is none. (The replacement text used by the
  screen has no \<^verbatim>\<open>$\<close>, so it is inserted literally.)
\<close>

fun String_replace :: "string \<Rightarrow> string \<Rightarrow> string \<Rightarrow> string" where
  "String_replace pat rep [] = (if pat = [] then rep else [])"
| "String_replace pat rep (c # cs) =
     (if prefix pat (c # cs) then rep @ drop (length pat) (c # cs)
      else c # String_replace pat rep cs)"

text \<open>\<^verbatim>\<open>s.split(" ")\<close>: the fields between the separators, empty fields included.\<close>

fun String_split :: "char \<Rightarrow> string \<Rightarrow> string list" where
  "String_split sep [] = [[]]"
| "String_split sep (c # cs) =
     (if c = sep then [] # String_split sep cs
      else (case String_split sep cs of
              [] \<Rightarrow> [[c]]
            | w # ws \<Rightarrow> (c # w) # ws))"

section \<open>Path manager\<close>

text \<open>
  \<^verbatim>\<open>nowStamp = () => new Date().toISOString().replace(/[:.]/g, "-")\<close>. The clock is the
  environment's: the argument is the ISO string it returns at the moment of the call.
\<close>

definition nowStamp :: "string \<Rightarrow> string" where
  "nowStamp isoTime = map (\<lambda>c. if c = CHR '':'' \<or> c = CHR ''.'' then CHR ''-'' else c) isoTime"

text \<open>
  \<^verbatim>\<open>outDir = RNFS.DocumentDirectoryPath + "/outputs"\<close>; the document directory is a constant
  of the file-system library and is a parameter here.
\<close>

definition outDir :: "string \<Rightarrow> string" where
  "outDir documentDirectoryPath = documentDirectoryPath @ ''/outputs''"

text \<open>
  \<^verbatim>\<open>ensureOutDir\<close> awaits \<^verbatim>\<open>RNFS.exists\<close> and, when the directory is missing,
  \<^verbatim>\<open>RNFS.mkdir\<close>. Both belong to the file-system library and are parameters: each takes the
  file-system state and a path, and either rejects with a message (\<open>Inl\<close>) or resolves.
  A rejection leaves \<^verbatim>\<open>ensureOutDir\<close> through the \<^verbatim>\<open>await\<close>, as an exception would.
\<close>

definition ensureOutDir ::
  "('fs \<Rightarrow> string \<Rightarrow> string + bool) \<Rightarrow> ('fs \<Rightarrow> string \<Rightarrow> string + 'fs) \<Rightarrow>
   string \<Rightarrow> 'fs \<Rightarrow> string + (string \<times> 'fs)" where
  "ensureOutDir RNFS_exists RNFS_mkdir documentDirectoryPath fs =
     (case RNFS_exists fs (outDir documentDirectoryPath) of
        Inl e \<Rightarrow> Inl e
      | Inr exists \<Rightarrow>
          if \<not> exists then
            (case RNFS_mkdir fs (outDir documentDirectoryPath) of
               Inl e \<Rightarrow> Inl e
             | Inr fs' \<Rightarrow> Inr (outDir documentDirectoryPath, fs'))
          else Inr (outDir documentDirectoryPath, fs))"

text \<open>
  A file system for running \<^const>\<open>ensureOutDir\<close>: the set of directories that exist, and
  whether the storage accepts new ones. \<^verbatim>\<open>mkdir\<close> on it adds the path, or rejects.
\<close>

record filesystem =
  dirs :: "string set"
  writable :: bool

definition fs_exists :: "filesystem \<Rightarrow> string \<Rightarrow> string + bool" where
  "fs_exists fs p = Inr (p \<in> dirs fs)"

definition fs_mkdir :: "filesystem \<Rightarrow> string \<Rightarrow> string + filesystem" where
  "fs_mkdir fs p =
     (if writable fs then Inr (fs\<lparr>dirs := insert p (dirs fs)\<rparr>)
      else Inl ''Directory could not be created'')"

section \<open>Command builder\<close>

text \<open>Each builder is one template literal: its fixed text around the two arguments.\<close>

definition buildSplitCommand :: "string \<Rightarrow> string \<Rightarrow> string" where
  "buildSplitCommand inputUri outPattern =
     ''-i \"'' @ inputUri @
     ''\" -map 0 -c:v libx264 -preset veryfast -crf 23 -c:a aac -segment_time 60 -f segment -reset_timestamps 1 \"''
     @ outPattern @ ''\"''"

definition buildCropSquareCommand :: "string \<Rightarrow> string \<Rightarrow> string" where
  "buildCropSquareCommand inputUri outputPath =
     (let vf = ''crop='min(iw,ih)':'min(iw,ih)',scale=1080:1080''
      in ''-i \"'' @ inputUri @ ''\" -vf '' @ vf @
         '' -c:v libx264 -preset veryfast -crf 20 -c:a copy \"'' @ outputPath @ ''\"'')"

definition buildBlurCommand :: "string \<Rightarrow> string \<Rightarrow> string" where
  "buildBlurCommand inputUri outputPath =
     (let vf = ''boxblur=10:1''
      in ''-i \"'' @ inputUri @ ''\" -vf '' @ vf @
         '' -c:v libx264 -preset veryfast -crf 22 -c:a copy \"'' @ outputPath @ ''\"'')"

definition buildEnhanceCommand :: "string \<Rightarrow> string \<Rightarrow> string" where
  "buildEnhanceCommand inputUri outputPath =
     (let vf = ''unsharp=5:5:1.0:5:5:0.0,eq=contrast=1.08:brightness=0.02:saturation=1.15''
      in ''-i \"'' @ inputUri @ ''\" -vf '' @ vf @
         '' -c:v libx264 -preset veryfast -crf 20 -c:a copy \"'' @ outputPath @ ''\"'')"

text \<open>
  Reading a command string back: its space-separated words, and the word that follows the
  first occurrence of an option name.
\<close>

fun word_after :: "string \<Rightarrow> string list \<Rightarrow> string option" where
  "word_after opt (a # b # ws) = (if a = opt then Some b else word_after opt (b # ws))"
| "word_after opt ws = None"

definition option_value :: "string \<Rightarrow> string \<Rightarrow> string option" where
  "option_value opt cmd = word_after opt (String_split CHR '' '' cmd)"

section \<open>UI controller\<close>

datatype preset = Split | CropSquare | Blur | Enhance

text \<open>
  \<^verbatim>\<open>withRun\<close> is an asynchronous function: it runs up to its first \<^verbatim>\<open>await\<close> inside the
  press handler and is resumed later, when the awaited promise settles. A suspended
  invocation is a \<open>run\<close>: the label and the \<^verbatim>\<open>buildCmd\<close> closure it was called with (one
  closure per preset, with the \<^verbatim>\<open>inputUri\<close> the closure captured), and the \<^verbatim>\<open>await\<close> it
  is suspended at.
\<close>

datatype phase = AwaitOutDir | AwaitFFmpeg

record run =
  run_label :: string
  run_preset :: preset
  run_inputUri :: string
  run_phase :: phase

text \<open>
  The component's state (\<^verbatim>\<open>inputUri\<close>, \<^verbatim>\<open>busy\<close>, \<^verbatim>\<open>outputs\<close>), and what it has done to its
  collaborators: the alerts shown (title and message, oldest first), the suspended
  invocations of \<^verbatim>\<open>withRun\<close>, and the commands handed to \<^verbatim>\<open>FFmpegKit.executeAsync\<close>
  (oldest first).
\<close>

record app =
  inputUri :: "string option"
  busy :: "string option"
  outputs :: "string list"
  alerts :: "(string \<times> string) list"
  runs :: "run list"
  executed :: "string list"

definition init :: app where
  "init = \<lparr>inputUri = None, busy = None, outputs = [], alerts = [], runs = [], executed = []\<rparr>"

definition Alert_alert :: "string \<Rightarrow> string \<Rightarrow> app \<Rightarrow> app" where
  "Alert_alert title message s = s\<lparr>alerts := alerts s @ [(title, message)]\<rparr>"

text \<open>\<^verbatim>\<open>runFFmpeg(cmd)\<close> hands the command to the engine; its promise settles later.\<close>

definition runFFmpeg :: "string \<Rightarrow> app \<Rightarrow> app" where
  "runFFmpeg cmd s = s\<lparr>executed := executed s @ [cmd]\<rparr>"

subsection \<open>Picking a video\<close>

definition onPick_resolved :: "string \<Rightarrow> app \<Rightarrow> app" where
  "onPick_resolved uri s = Alert_alert ''Video selected'' uri (s\<lparr>inputUri := Some uri\<rparr>)"

definition onPick_catch :: "bool \<Rightarrow> string \<Rightarrow> app \<Rightarrow> app" where
  "onPick_catch isCancel message s =
     (if \<not> isCancel then Alert_alert ''Pick failed'' message s else s)"

subsection \<open>The four closures passed to withRun\<close>

text \<open>
  Each closure reads the clock, prepends a record to \<^verbatim>\<open>outputs\<close> and returns the command.
  The arguments are the document directory, the clock's ISO string and the captured
  \<^verbatim>\<open>inputUri\<close>.
\<close>

definition doSplit_pattern :: "string \<Rightarrow> string \<Rightarrow> string" where
  "doSplit_pattern documentDirectoryPath isoTime =
     outDir documentDirectoryPath @ ''/split_'' @ nowStamp isoTime @ ''_%03d.mp4''"

definition doSplit_buildCmd :: "string \<Rightarrow> string \<Rightarrow> string \<Rightarrow> app \<Rightarrow> string \<times> app" where
  "doSplit_buildCmd documentDirectoryPath isoTime uri s =
     (let pattern = doSplit_pattern documentDirectoryPath isoTime
      in (buildSplitCommand uri pattern,
          s\<lparr>outputs := String_replace ''%03d'' ''001..'' pattern # outputs s\<rparr>))"

definition doCrop_buildCmd :: "string \<Rightarrow> string \<Rightarrow> string \<Rightarrow> app \<Rightarrow> string \<times> app" where
  "doCrop_buildCmd documentDirectoryPath isoTime uri s =
     (let out = outDir documentDirectoryPath @ ''/crop_'' @ nowStamp isoTime @ ''.mp4''
      in (buildCropSquareCommand uri out, s\<lparr>outputs := out # outputs s\<rparr>))"

definition doBlur_buildCmd :: "string \<Rightarrow> string \<Rightarrow> string \<Rightarrow> app \<Rightarrow> string \<times> app" where
  "doBlur_buildCmd documentDirectoryPath isoTime uri s =
     (let out = outDir documentDirectoryPath @ ''/blur_'' @ nowStamp isoTime @ ''.mp4''
      in (buildBlurCommand uri out, s\<lparr>outputs := out # outputs s\<rparr>))"

definition doEnhance_buildCmd :: "string \<Rightarrow> string \<Rightarrow> string \<Rightarrow> app \<Rightarrow> string \<times> app" where
  "doEnhance_buildCmd documentDirectoryPath isoTime uri s =
     (let out = outDir documentDirectoryPath @ ''/enhance_'' @ nowStamp isoTime @ ''.mp4''
      in (buildEnhanceCommand uri out, s\<lparr>outputs := out # outputs s\<rparr>))"

fun buildCmd :: "preset \<Rightarrow> string \<Rightarrow> string \<Rightarrow> string \<Rightarrow> app \<Rightarrow> string \<times> app" where
  "buildCmd Split = doSplit_buildCmd"
| "buildCmd CropSquare = doCrop_buildCmd"
| "buildCmd Blur = doBlur_buildCmd"
| "buildCmd Enhance = doEnhance_buildCmd"

subsection \<open>withRun, one definition per stretch between two awaits\<close>

definition remove_run :: "nat \<Rightarrow> app \<Rightarrow> app" where
  "remove_run k s = s\<lparr>runs := take k (runs s) @ drop (Suc k) (runs s)\<rparr>"

text \<open>
  From the call to the first \<^verbatim>\<open>await\<close>: the guard on \<^verbatim>\<open>inputUri\<close>, \<^verbatim>\<open>setBusy(label)\<close>, and
  the call of \<^verbatim>\<open>ensureOutDir\<close>, at which the invocation is suspended. The closure's
  \<^verbatim>\<open>inputUri!\<close> is the value the handler was created with, which is the state's at the press;
  past the guard it is not \<^verbatim>\<open>null\<close>.
\<close>

definition withRun :: "string \<Rightarrow> preset \<Rightarrow> app \<Rightarrow> app" where
  "withRun label closure s =
     (if \<not> truthy (inputUri s) then Alert_alert ''No video'' ''Please pick a video first.'' s
      else s\<lparr>busy := Some label,
             runs := runs s @ [\<lparr>run_label = label, run_preset = closure,
                                run_inputUri = the (inputUri s), run_phase = AwaitOutDir\<rparr>]\<rparr>)"

text \<open>
  \<^verbatim>\<open>ensureOutDir\<close> resolved: \<^verbatim>\<open>buildCmd()\<close> runs, then \<^verbatim>\<open>runFFmpeg(cmd)\<close> is called and
  awaited.
\<close>

definition withRun_build :: "string \<Rightarrow> string \<Rightarrow> nat \<Rightarrow> app \<Rightarrow> app" where
  "withRun_build documentDirectoryPath isoTime k s =
     (let r = runs s ! k;
          (cmd, s1) = buildCmd (run_preset r) documentDirectoryPath isoTime (run_inputUri r) s;
          s2 = runFFmpeg cmd s1
      in s2\<lparr>runs := (runs s2)[k := r\<lparr>run_phase := AwaitFFmpeg\<rparr>]\<rparr>)"

text \<open>\<^verbatim>\<open>runFFmpeg\<close> resolved with \<^verbatim>\<open>{ok, logs}\<close>.\<close>

definition withRun_done :: "bool \<Rightarrow> string \<Rightarrow> nat \<Rightarrow> app \<Rightarrow> app" where
  "withRun_done ok logs k s =
     (let label = run_label (runs s ! k);
          s1 = s\<lparr>busy := None\<rparr>;
          s2 = (if ok then Alert_alert (label @ '' done'') ''Check the output paths below.'' s1
                else Alert_alert (label @ '' failed'') (take 2000 logs) s1)
      in remove_run k s2)"

text \<open>The \<^verbatim>\<open>catch\<close> block: an awaited promise rejected, or a call threw.\<close>

definition withRun_catch :: "string \<Rightarrow> nat \<Rightarrow> app \<Rightarrow> app" where
  "withRun_catch message k s =
     (let label = run_label (runs s ! k);
          s1 = s\<lparr>busy := None\<rparr>;
          s2 = Alert_alert (label @ '' error'') message s1
      in remove_run k s2)"

subsection \<open>The press handlers and the buttons\<close>

definition doSplit :: "app \<Rightarrow> app" where
  "doSplit = withRun ''Split (1-minute)'' Split"

definition doCrop :: "app \<Rightarrow> app" where
  "doCrop = withRun ''Crop (Square)'' CropSquare"

definition doBlur :: "app \<Rightarrow> app" where
  "doBlur = withRun ''Blur'' Blur"

definition doEnhance :: "app \<Rightarrow> app" where
  "doEnhance = withRun ''Enhance'' Enhance"

fun onPress :: "preset \<Rightarrow> app \<Rightarrow> app" where
  "onPress Split = doSplit"
| "onPress CropSquare = doCrop"
| "onPress Blur = doBlur"
| "onPress Enhance = doEnhance"

text \<open>
  A button rendered with \<^verbatim>\<open>disabled\<close> does not call its handler. The four preset buttons
  are rendered with \<^verbatim>\<open>disabled={!inputUri || !!busy}\<close>.
\<close>

definition disabled :: "app \<Rightarrow> bool" where
  "disabled s = (\<not> truthy (inputUri s) \<or> truthy (busy s))"

definition Btn_press :: "preset \<Rightarrow> app \<Rightarrow> app" where
  "Btn_press p s = (if disabled s then s else onPress p s)"

subsection \<open>Events\<close>

text \<open>
  What can happen to the screen: the user presses a preset button; the picker resolves or
  rejects; for the suspended invocation number \<open>k\<close>, \<^verbatim>\<open>ensureOutDir\<close> resolves (the clock
  then reads \<open>isoTime\<close>), the engine's promise resolves, or an awaited promise rejects. An event
  for an invocation that does not exist, or that is not suspended at that \<^verbatim>\<open>await\<close>, cannot
  happen and changes nothing. State updates are visible to the next event.
\<close>

datatype event =
    Press preset
  | PickResolved string
  | PickRejected bool string
  | OutDirResolved nat string
  | FFmpegResolved nat bool string
  | Rejected nat string

fun step :: "string \<Rightarrow> app \<Rightarrow> event \<Rightarrow> app" where
  "step d s (Press p) = Btn_press p s"
| "step d s (PickResolved uri) = onPick_resolved uri s"
| "step d s (PickRejected isCancel message) = onPick_catch isCancel message s"
| "step d s (OutDirResolved k isoTime) =
     (if k < length (runs s) \<and> run_phase (runs s ! k) = AwaitOutDir
      then withRun_build d isoTime k s else s)"
| "step d s (FFmpegResolved k ok logs) =
     (if k < length (runs s) \<and> run_phase (runs s ! k) = AwaitFFmpeg
      then withRun_done ok logs k s else s)"
| "step d s (Rejected k message) =
     (if k < length (runs s) then withRun_catch message k s else s)"

definition exec :: "string \<Rightarrow> event list \<Rightarrow> app" where
  "exec d evs = foldl (step d) init evs"

text \<open>The invocations of the engine that have not resolved yet.\<close>

definition in_flight :: "app \<Rightarrow> nat" where
  "in_flight s = length (filter (\<lambda>r. run_phase r = AwaitFFmpeg) (runs s))"

text \<open>
  The single slot: no invocation of \<^verbatim>\<open>withRun\<close> is suspended and \<^verbatim>\<open>busy\<close> is \<^verbatim>\<open>null\<close>, or
  exactly one is and \<^verbatim>\<open>busy\<close> is its (non-empty) label.
\<close>

definition single_slot :: "app \<Rightarrow> bool" where
  "single_slot s =
     (case runs s of
        [] \<Rightarrow> busy s = None
      | [r] \<Rightarrow> busy s = Some (run_label r) \<and> run_label r \<noteq> [] \<and> inputUri s \<noteq> None
      | _ \<Rightarrow> False)"

text \<open>
  Two sample states: a video was picked and Split was pressed, so that an invocation waits
  for \<^verbatim>\<open>ensureOutDir\<close>; a video was picked, Crop was pressed and the output directory is
  there, so that the engine is running.
\<close>

definition sample_pressed :: app where
  "sample_pressed = exec ''/data/files'' [PickResolved ''file:///a.mp4'', Press Split]"

definition sample_running :: app where
  "sample_running =
     exec ''/data/files''
       [PickResolved ''file:///a.mp4'', Press CropSquare,
        OutDirResolved 0 ''2024-01-02T03:04:05.678Z'']"

section \<open>The command builders\<close>

text \<open>
  C2. For the input reference \<^verbatim>\<open>file:///a.mp4\<close> and the output path \<^verbatim>\<open>/out/crop_T.mp4\<close>,
  \<^verbatim>\<open>buildCropSquareCommand\<close> returns a string that contains \<^verbatim>\<open>-i "file:///a.mp4"\<close>,
  contains \<^verbatim>\<open>crop='min(iw,ih)':'min(iw,ih)',scale=1080:1080\<close>, and ends with the quoted
  output path \<^verbatim>\<open>"/out/crop_T.mp4"\<close>.
\<close>

theorem crop_scenario:
  "sublist ''-i \"file:///a.mp4\"'' (buildCropSquareCommand ''file:///a.mp4'' ''/out/crop_T.mp4'')
   \<and> sublist ''crop='min(iw,ih)':'min(iw,ih)',scale=1080:1080''
        (buildCropSquareCommand ''file:///a.mp4'' ''/out/crop_T.mp4'')
   \<and> suffix '' \"/out/crop_T.mp4\"'' (buildCropSquareCommand ''file:///a.mp4'' ''/out/crop_T.mp4'')"
  by code_simp

text \<open>
  C3, as the code has it. Each of the four builders returns the text \<^verbatim>\<open>-i\<close>, the input
  reference between two double quotes, the builder's fixed options, and the output path or
  pattern between two double quotes, which end the string. Neither the text before the
  quoted input nor the options have a double quote. So the returned string contains the
  exact input reference and the exact output, and its double quotes are the two
  surrounding pairs the builder writes and every double quote of the input and of the
  output, copied as it is: the builders escape nothing. The surrounding pairs are the only
  double quotes exactly when the input and the output have none.
\<close>

theorem builders_embed_arguments:
  "buildSplitCommand uri out
     = ''-i '' @ [CHR 0x22] @ uri @ [CHR 0x22]
       @ '' -map 0 -c:v libx264 -preset veryfast -crf 23 -c:a aac -segment_time 60 -f segment -reset_timestamps 1 ''
       @ [CHR 0x22] @ out @ [CHR 0x22]
   \<and> buildCropSquareCommand uri out
     = ''-i '' @ [CHR 0x22] @ uri @ [CHR 0x22]
       @ '' -vf crop='min(iw,ih)':'min(iw,ih)',scale=1080:1080 -c:v libx264 -preset veryfast -crf 20 -c:a copy ''
       @ [CHR 0x22] @ out @ [CHR 0x22]
   \<and> buildBlurCommand uri out
     = ''-i '' @ [CHR 0x22] @ uri @ [CHR 0x22]
       @ '' -vf boxblur=10:1 -c:v libx264 -preset veryfast -crf 22 -c:a copy ''
       @ [CHR 0x22] @ out @ [CHR 0x22]
   \<and> buildEnhanceCommand uri out
     = ''-i '' @ [CHR 0x22] @ uri @ [CHR 0x22]
       @ '' -vf unsharp=5:5:1.0:5:5:0.0,eq=contrast=1.08:brightness=0.02:saturation=1.15 -c:v libx264 -preset veryfast -crf 20 -c:a copy ''
       @ [CHR 0x22] @ out @ [CHR 0x22]
   \<and> CHR 0x22 \<notin> set ''-i ''
   \<and> CHR 0x22 \<notin> set '' -map 0 -c:v libx264 -preset veryfast -crf 23 -c:a aac -segment_time 60 -f segment -reset_timestamps 1 ''
   \<and> CHR 0x22 \<notin> set '' -vf crop='min(iw,ih)':'min(iw,ih)',scale=1080:1080 -c:v libx264 -preset veryfast -crf 20 -c:a copy ''
   \<and> CHR 0x22 \<notin> set '' -vf boxblur=10:1 -c:v libx264 -preset veryfast -crf 22 -c:a copy ''
   \<and> CHR 0x22 \<notin> set '' -vf unsharp=5:5:1.0:5:5:0.0,eq=contrast=1.08:brightness=0.02:saturation=1.15 -c:v libx264 -preset veryfast -crf 20 -c:a copy ''
   \<and> sublist uri (buildSplitCommand uri out) \<and> sublist out (buildSplitCommand uri out)
   \<and> count_list (buildSplitCommand uri out) CHR 0x22
        = 4 + count_list uri CHR 0x22 + count_list out CHR 0x22
   \<and> sublist uri (buildCropSquareCommand uri out) \<and> sublist out (buildCropSquareCommand uri out)
   \<and> count_list (buildCropSquareCommand uri out) CHR 0x22
        = 4 + count_list uri CHR 0x22 + count_list out CHR 0x22
   \<and> sublist uri (buildBlurCommand uri out) \<and> sublist out (buildBlurCommand uri out)
   \<and> count_list (buildBlurCommand uri out) CHR 0x22
        = 4 + count_list uri CHR 0x22 + count_list out CHR 0x22
   \<and> sublist uri (buildEnhanceCommand uri out) \<and> sublist out (buildEnhanceCommand uri out)
   \<and> count_list (buildEnhanceCommand uri out) CHR 0x22
        = 4 + count_list uri CHR 0x22 + count_list out CHR 0x22"
proof -
  have shape:
    "buildSplitCommand uri out
       = ''-i '' @ [CHR 0x22] @ uri @ [CHR 0x22]
         @ '' -map 0 -c:v libx264 -preset veryfast -crf 23 -c:a aac -segment_time 60 -f segment -reset_timestamps 1 ''
         @ [CHR 0x22] @ out @ [CHR 0x22]"
    "buildCropSquareCommand uri out
       = ''-i '' @ [CHR 0x22] @ uri @ [CHR 0x22]
         @ '' -vf crop='min(iw,ih)':'min(iw,ih)',scale=1080:1080 -c:v libx264 -preset veryfast -crf 20 -c:a copy ''
         @ [CHR 0x22] @ out @ [CHR 0x22]"
    "buildBlurCommand uri out
       = ''-i '' @ [CHR 0x22] @ uri @ [CHR 0x22]
         @ '' -vf boxblur=10:1 -c:v libx264 -preset veryfast -crf 22 -c:a copy ''
         @ [CHR 0x22] @ out @ [CHR 0x22]"
    "buildEnhanceCommand uri out
       = ''-i '' @ [CHR 0x22] @ uri @ [CHR 0x22]
         @ '' -vf unsharp=5:5:1.0:5:5:0.0,eq=contrast=1.08:brightness=0.02:saturation=1.15 -c:v libx264 -preset veryfast -crf 20 -c:a copy ''
         @ [CHR 0x22] @ out @ [CHR 0x22]"
    by (simp_all add: buildSplitCommand_def buildCropSquareCommand_def buildBlurCommand_def
          buildEnhanceCommand_def)
  have fixed:
    "CHR 0x22 \<notin> set ''-i ''"
    "CHR 0x22 \<notin> set '' -map 0 -c:v libx264 -preset veryfast -crf 23 -c:a aac -segment_time 60 -f segment -reset_timestamps 1 ''"
    "CHR 0x22 \<notin> set '' -vf crop='min(iw,ih)':'min(iw,ih)',scale=1080:1080 -c:v libx264 -preset veryfast -crf 20 -c:a copy ''"
    "CHR 0x22 \<notin> set '' -vf boxblur=10:1 -c:v libx264 -preset veryfast -crf 22 -c:a copy ''"
    "CHR 0x22 \<notin> set '' -vf unsharp=5:5:1.0:5:5:0.0,eq=contrast=1.08:brightness=0.02:saturation=1.15 -c:v libx264 -preset veryfast -crf 20 -c:a copy ''"
    by simp_all
  have in_uri: "sublist uri (a @ uri @ b)" for a b :: string
    by (rule sublist_appendI)
  have in_out: "sublist out (a @ uri @ b @ out @ c)" for a b c :: string
    using sublist_appendI [of out "a @ uri @ b" c] by simp
  have in_out_vf: "sublist out (a @ uri @ b @ vf @ c @ out @ e)" for a b c e vf :: string
    using sublist_appendI [of out "a @ uri @ b @ vf @ c" e] by simp
  have split: "sublist uri (buildSplitCommand uri out)" "sublist out (buildSplitCommand uri out)"
    unfolding buildSplitCommand_def by (rule in_uri, rule in_out)
  have crop: "sublist uri (buildCropSquareCommand uri out)"
    "sublist out (buildCropSquareCommand uri out)"
    unfolding buildCropSquareCommand_def Let_def by (rule in_uri, rule in_out_vf)
  have blur: "sublist uri (buildBlurCommand uri out)" "sublist out (buildBlurCommand uri out)"
    unfolding buildBlurCommand_def Let_def by (rule in_uri, rule in_out_vf)
  have enhance: "sublist uri (buildEnhanceCommand uri out)"
    "sublist out (buildEnhanceCommand uri out)"
    unfolding buildEnhanceCommand_def Let_def by (rule in_uri, rule in_out_vf)
  have quotes:
    "count_list (buildSplitCommand uri out) CHR 0x22
       = 4 + count_list uri CHR 0x22 + count_list out CHR 0x22"
    "count_list (buildCropSquareCommand uri out) CHR 0x22
       = 4 + count_list uri CHR 0x22 + count_list out CHR 0x22"
    "count_list (buildBlurCommand uri out) CHR 0x22
       = 4 + count_list uri CHR 0x22 + count_list out CHR 0x22"
    "count_list (buildEnhanceCommand uri out) CHR 0x22
       = 4 + count_list uri CHR 0x22 + count_list out CHR 0x22"
    by (simp_all add: buildSplitCommand_def buildCropSquareCommand_def buildBlurCommand_def
          buildEnhanceCommand_def)
  show ?thesis
    by (intro conjI shape fixed split crop blur enhance quotes)
qed

text \<open>
  C3 as stated fails: an input reference with a double quote in it comes back with that
  quote unescaped, a fifth double quote next to the two surrounding pairs.
\<close>

theorem builders_quotes_counterexample:
  "buildSplitCommand ''a\"b'' ''out.mp4''
     = ''-i \"a\"b\" -map 0 -c:v libx264 -preset veryfast -crf 23 -c:a aac -segment_time 60 -f segment -reset_timestamps 1 \"out.mp4\"''
   \<and> count_list (buildSplitCommand ''a\"b'' ''out.mp4'') CHR 0x22 = 5"
  by (simp add: buildSplitCommand_def)

text \<open>
  C4. For every input reference and output pattern, the string returned by
  \<^verbatim>\<open>buildSplitCommand\<close> contains the segment duration \<^verbatim>\<open>-segment_time 60\<close> (as two whole
  words), and the pattern the Split action computes and passes to the builder contains the
  zero-padded three-digit placeholder \<^verbatim>\<open>%03d\<close> (it ends with \<^verbatim>\<open>_%03d.mp4\<close>).
\<close>

theorem split_segment_time_and_placeholder:
  "sublist '' -segment_time 60 '' (buildSplitCommand uri outPattern)
   \<and> sublist ''%03d'' (doSplit_pattern d isoTime)
   \<and> suffix ''_%03d.mp4'' (doSplit_pattern d isoTime)
   \<and> fst (doSplit_buildCmd d isoTime uri s) = buildSplitCommand uri (doSplit_pattern d isoTime)"
proof -
  have "buildSplitCommand uri outPattern =
        (''-i \"'' @ uri @ ''\" -map 0 -c:v libx264 -preset veryfast -crf 23 -c:a aac'')
        @ '' -segment_time 60 '' @ (''-f segment -reset_timestamps 1 \"'' @ outPattern @ ''\"'')"
    by (simp add: buildSplitCommand_def)
  then have a: "sublist '' -segment_time 60 '' (buildSplitCommand uri outPattern)"
    by (simp only: sublist_appendI)
  have "doSplit_pattern d isoTime
        = (outDir d @ ''/split_'' @ nowStamp isoTime @ ''_'') @ ''%03d'' @ ''.mp4''"
    by (simp add: doSplit_pattern_def)
  then have b: "sublist ''%03d'' (doSplit_pattern d isoTime)"
    by (simp only: sublist_appendI)
  have "doSplit_pattern d isoTime = (outDir d @ ''/split_'' @ nowStamp isoTime) @ ''_%03d.mp4''"
    by (simp add: doSplit_pattern_def)
  then have c: "suffix ''_%03d.mp4'' (doSplit_pattern d isoTime)"
    by (simp only: suffixI)
  have e: "fst (doSplit_buildCmd d isoTime uri s) = buildSplitCommand uri (doSplit_pattern d isoTime)"
    by (simp add: doSplit_buildCmd_def Let_def)
  from a b c e show ?thesis by blast
qed

subsection \<open>Encoding options\<close>

lemma String_split_nonempty: "String_split sep s \<noteq> []"
  by (induction s) (auto split: list.splits)

lemma String_split_word:
  "sep \<notin> set w \<Longrightarrow> String_split sep (w @ rest) =
     (case String_split sep rest of [] \<Rightarrow> [w] | v # vs \<Rightarrow> (w @ v) # vs)"
proof (induction w)
  case Nil
  then show ?case using String_split_nonempty [of sep rest] by (simp split: list.splits)
next
  case (Cons c w)
  then show ?case by (simp split: list.splits)
qed

lemma option_values_split:
  assumes "CHR '' '' \<notin> set uri"
  shows "option_value ''-preset'' (buildSplitCommand uri out) = Some ''veryfast''"
    and "option_value ''-crf'' (buildSplitCommand uri out) = Some ''23''"
  using assms by (simp_all add: option_value_def buildSplitCommand_def String_split_word)

lemma option_values_crop:
  assumes "CHR '' '' \<notin> set uri"
  shows "option_value ''-preset'' (buildCropSquareCommand uri out) = Some ''veryfast''"
    and "option_value ''-crf'' (buildCropSquareCommand uri out) = Some ''20''"
  using assms by (simp_all add: option_value_def buildCropSquareCommand_def String_split_word)

lemma option_values_blur:
  assumes "CHR '' '' \<notin> set uri"
  shows "option_value ''-preset'' (buildBlurCommand uri out) = Some ''veryfast''"
    and "option_value ''-crf'' (buildBlurCommand uri out) = Some ''22''"
  using assms by (simp_all add: option_value_def buildBlurCommand_def String_split_word)

lemma option_values_enhance:
  assumes "CHR '' '' \<notin> set uri"
  shows "option_value ''-preset'' (buildEnhanceCommand uri out) = Some ''veryfast''"
    and "option_value ''-crf'' (buildEnhanceCommand uri out) = Some ''20''"
  using assms by (simp_all add: option_value_def buildEnhanceCommand_def String_split_word)

lemma option_text_split:
  "sublist '' -preset veryfast -crf 23 '' (buildSplitCommand uri out)"
proof -
  have "buildSplitCommand uri out = (''-i \"'' @ uri @ ''\" -map 0 -c:v libx264'')
        @ '' -preset veryfast -crf 23 ''
        @ (''-c:a aac -segment_time 60 -f segment -reset_timestamps 1 \"'' @ out @ ''\"'')"
    by (simp add: buildSplitCommand_def)
  then show ?thesis by (simp only: sublist_appendI)
qed

lemma option_text_crop:
  "sublist '' -preset veryfast -crf 20 '' (buildCropSquareCommand uri out)"
proof -
  have "buildCropSquareCommand uri out
        = (''-i \"'' @ uri @ ''\" -vf crop='min(iw,ih)':'min(iw,ih)',scale=1080:1080 -c:v libx264'')
        @ '' -preset veryfast -crf 20 '' @ (''-c:a copy \"'' @ out @ ''\"'')"
    by (simp add: buildCropSquareCommand_def)
  then show ?thesis by (simp only: sublist_appendI)
qed

lemma option_text_blur:
  "sublist '' -preset veryfast -crf 22 '' (buildBlurCommand uri out)"
proof -
  have "buildBlurCommand uri out = (''-i \"'' @ uri @ ''\" -vf boxblur=10:1 -c:v libx264'')
        @ '' -preset veryfast -crf 22 '' @ (''-c:a copy \"'' @ out @ ''\"'')"
    by (simp add: buildBlurCommand_def)
  then show ?thesis by (simp only: sublist_appendI)
qed

lemma option_text_enhance:
  "sublist '' -preset veryfast -crf 20 '' (buildEnhanceCommand uri out)"
proof -
  have "buildEnhanceCommand uri out
        = (''-i \"'' @ uri @ ''\" -vf unsharp=5:5:1.0:5:5:0.0,eq=contrast=1.08:brightness=0.02:saturation=1.15 -c:v libx264'')
        @ '' -preset veryfast -crf 20 '' @ (''-c:a copy \"'' @ out @ ''\"'')"
    by (simp add: buildEnhanceCommand_def)
  then show ?thesis by (simp only: sublist_appendI)
qed

text \<open>
  C9, as the code has it. For every input and output, all four builders write the same
  encoding preset, \<^verbatim>\<open>-preset veryfast\<close>, and each writes a quality parameter that depends on
  neither argument; the quality values are not the same: \<^verbatim>\<open>-crf 23\<close> for Split, \<^verbatim>\<open>20\<close> for
  CropSquare, \<^verbatim>\<open>22\<close> for Blur and \<^verbatim>\<open>20\<close> for Enhance. The option text is in every command;
  read word by word (for an input reference without a space, so that the quoted reference
  is one word), the value after \<^verbatim>\<open>-preset\<close> and after \<^verbatim>\<open>-crf\<close> is the one named.
\<close>

theorem builders_preset_and_quality:
  "sublist '' -preset veryfast -crf 23 '' (buildSplitCommand uri out)
   \<and> sublist '' -preset veryfast -crf 20 '' (buildCropSquareCommand uri out)
   \<and> sublist '' -preset veryfast -crf 22 '' (buildBlurCommand uri out)
   \<and> sublist '' -preset veryfast -crf 20 '' (buildEnhanceCommand uri out)
   \<and> (CHR '' '' \<notin> set uri \<longrightarrow>
         option_value ''-preset'' (buildSplitCommand uri out) = Some ''veryfast''
       \<and> option_value ''-preset'' (buildCropSquareCommand uri out) = Some ''veryfast''
       \<and> option_value ''-preset'' (buildBlurCommand uri out) = Some ''veryfast''
       \<and> option_value ''-preset'' (buildEnhanceCommand uri out) = Some ''veryfast''
       \<and> option_value ''-crf'' (buildSplitCommand uri out) = Some ''23''
       \<and> option_value ''-crf'' (buildCropSquareCommand uri out) = Some ''20''
       \<and> option_value ''-crf'' (buildBlurCommand uri out) = Some ''22''
       \<and> option_value ''-crf'' (buildEnhanceCommand uri out) = Some ''20'')"
  using option_text_split [of uri out] option_text_crop [of uri out]
    option_text_blur [of uri out] option_text_enhance [of uri out]
    option_values_split [of uri out] option_values_crop [of uri out]
    option_values_blur [of uri out] option_values_enhance [of uri out]
  by blast

theorem builders_preset_and_quality_witness:
  "CHR '' '' \<notin> set ''file:///a.mp4''
   \<and> option_value ''-preset'' (buildSplitCommand ''file:///a.mp4'' ''/out/o.mp4'') = Some ''veryfast''
   \<and> option_value ''-preset'' (buildBlurCommand ''file:///a.mp4'' ''/out/o.mp4'') = Some ''veryfast''
   \<and> option_value ''-crf'' (buildSplitCommand ''file:///a.mp4'' ''/out/o.mp4'') = Some ''23''
   \<and> option_value ''-crf'' (buildBlurCommand ''file:///a.mp4'' ''/out/o.mp4'') = Some ''22''"
proof -
  have h: "CHR '' '' \<notin> set ''file:///a.mp4''" by simp
  with builders_preset_and_quality [of "''file:///a.mp4''" "''/out/o.mp4''"]
  show ?thesis by blast
qed

text \<open>
  C9 as stated fails: on the same input and output, the Split command and the CropSquare
  command carry different quality values (23 and 20).
\<close>

theorem builders_quality_counterexample:
  "option_value ''-crf'' (buildSplitCommand ''file:///a.mp4'' ''/out/o.mp4'') = Some ''23''
   \<and> option_value ''-crf'' (buildCropSquareCommand ''file:///a.mp4'' ''/out/o.mp4'') = Some ''20''
   \<and> option_value ''-crf'' (buildSplitCommand ''file:///a.mp4'' ''/out/o.mp4'')
       \<noteq> option_value ''-crf'' (buildCropSquareCommand ''file:///a.mp4'' ''/out/o.mp4'')"
  by code_simp

section \<open>The Split record\<close>

lemma String_replace_length:
  "sublist pat s \<Longrightarrow> length (String_replace pat rep s) + length pat = length s + length rep"
proof (induction s)
  case Nil
  then show ?case by simp
next
  case (Cons c cs)
  show ?case
  proof (cases "prefix pat (c # cs)")
    case True
    then have "length pat \<le> length (c # cs)" by (rule prefix_length_le)
    with True show ?thesis by simp
  next
    case False
    with Cons.prems have "sublist pat cs" by (simp add: sublist_Cons_right)
    with Cons.IH False show ?thesis by simp
  qed
qed

lemma String_replace_skip:
  "x \<notin> set a \<Longrightarrow>
   String_replace (x # p) rep (a @ x # b) = a @ String_replace (x # p) rep (x # b)"
  by (induction a) auto

lemma percent_nowStamp: "CHR ''%'' \<in> set (nowStamp t) \<longleftrightarrow> CHR ''%'' \<in> set t"
  by (auto simp: nowStamp_def)

lemma split_record_explicit:
  assumes "CHR ''%'' \<notin> set d" "CHR ''%'' \<notin> set t"
  shows "String_replace ''%03d'' ''001..'' (doSplit_pattern d t)
         = outDir d @ ''/split_'' @ nowStamp t @ ''_001...mp4''"
proof -
  define a where "a = outDir d @ ''/split_'' @ nowStamp t @ ''_''"
  have eq: "doSplit_pattern d t = a @ CHR ''%'' # ''03d.mp4''"
    by (simp add: doSplit_pattern_def a_def)
  have nin: "CHR ''%'' \<notin> set a"
    using assms by (simp add: a_def outDir_def percent_nowStamp)
  have "String_replace (CHR ''%'' # ''03d'') ''001..'' (a @ CHR ''%'' # ''03d.mp4'')
        = a @ String_replace (CHR ''%'' # ''03d'') ''001..'' (CHR ''%'' # ''03d.mp4'')"
    using nin by (rule String_replace_skip)
  also have "String_replace (CHR ''%'' # ''03d'') ''001..'' (CHR ''%'' # ''03d.mp4'') = ''001...mp4''"
    by simp
  finally show ?thesis by (simp add: eq a_def)
qed

lemma split_record_differs:
  "String_replace ''%03d'' ''001..'' (doSplit_pattern d t) \<noteq> doSplit_pattern d t"
proof -
  have "doSplit_pattern d t = (outDir d @ ''/split_'' @ nowStamp t @ ''_'') @ ''%03d'' @ ''.mp4''"
    by (simp add: doSplit_pattern_def)
  then have "sublist ''%03d'' (doSplit_pattern d t)"
    by (simp only: sublist_appendI)
  from String_replace_length [OF this, of "''001..''"]
  have "length (String_replace ''%03d'' ''001..'' (doSplit_pattern d t))
        = length (doSplit_pattern d t) + 1"
    by simp
  then show ?thesis by auto
qed

text \<open>
  C10. For the Split preset, the record put in front of the output list is not the pattern
  passed to the command builder. The builder gets the pattern with its \<^verbatim>\<open>%03d\<close>; the record
  is \<^verbatim>\<open>pattern.replace("%03d", "001..")\<close>, which differs from the pattern at every document
  directory and every clock reading. (\<^verbatim>\<open>replace\<close> rewrites the first \<^verbatim>\<open>%03d\<close>; that is the
  placeholder, and the record is \<^verbatim>\<open>.../split_<stamp>_001...mp4\<close>, when neither the document
  directory nor the time stamp has a \<^verbatim>\<open>%\<close>.)
\<close>

theorem split_record_not_pattern:
  "fst (doSplit_buildCmd d t uri s) = buildSplitCommand uri (doSplit_pattern d t)
   \<and> outputs (snd (doSplit_buildCmd d t uri s))
       = String_replace ''%03d'' ''001..'' (doSplit_pattern d t) # outputs s
   \<and> hd (outputs (snd (doSplit_buildCmd d t uri s))) \<noteq> doSplit_pattern d t
   \<and> (CHR ''%'' \<notin> set d \<and> CHR ''%'' \<notin> set t \<longrightarrow>
        hd (outputs (snd (doSplit_buildCmd d t uri s)))
          = outDir d @ ''/split_'' @ nowStamp t @ ''_001...mp4'')"
  using split_record_differs [of d t] split_record_explicit [of d t]
  by (simp add: doSplit_buildCmd_def Let_def)

theorem split_record_not_pattern_witness:
  "CHR ''%'' \<notin> set ''/data/files'' \<and> CHR ''%'' \<notin> set ''2024-01-02T03:04:05.678Z''
   \<and> hd (outputs (snd (doSplit_buildCmd ''/data/files'' ''2024-01-02T03:04:05.678Z''
            ''file:///a.mp4'' init)))
       = ''/data/files/outputs/split_2024-01-02T03-04-05-678Z_001...mp4''
   \<and> fst (doSplit_buildCmd ''/data/files'' ''2024-01-02T03:04:05.678Z'' ''file:///a.mp4'' init)
       = buildSplitCommand ''file:///a.mp4''
           ''/data/files/outputs/split_2024-01-02T03-04-05-678Z_%03d.mp4''"
proof -
  have h: "CHR ''%'' \<notin> set ''/data/files'' \<and> CHR ''%'' \<notin> set ''2024-01-02T03:04:05.678Z''"
    by simp
  have p: "doSplit_pattern ''/data/files'' ''2024-01-02T03:04:05.678Z''
           = ''/data/files/outputs/split_2024-01-02T03-04-05-678Z_%03d.mp4''"
    by (simp add: doSplit_pattern_def outDir_def nowStamp_def)
  from split_record_not_pattern
         [of "''/data/files''" "''2024-01-02T03:04:05.678Z''" "''file:///a.mp4''" init] h p
  show ?thesis by (simp add: outDir_def nowStamp_def)
qed

section \<open>The output directory\<close>

text \<open>
  C8. Calling \<^verbatim>\<open>ensureOutDir\<close> twice in succession: once the first call has returned (its
  \<^verbatim>\<open>mkdir\<close>, if it made one, was not rejected), the output directory exists, and the
  second call returns the same directory without an error and leaves the file system as
  the first call left it: it finds the directory and makes no \<^verbatim>\<open>mkdir\<close>. This holds for
  every file-system library whose \<^verbatim>\<open>mkdir\<close>, when it resolves, leaves the path existing.
  On the file system of directories above, where the storage is writable or the directory
  is already there, neither call fails, and after both the directories are the ones there
  were and the one output directory.
\<close>

theorem ensureOutDir_idempotent:
  assumes contract: "\<And>fs p fs'. RNFS_mkdir fs p = Inr fs' \<Longrightarrow> RNFS_exists fs' p = Inr True"
      and first: "ensureOutDir RNFS_exists RNFS_mkdir d fs = Inr (dir, fs1)"
  shows "ensureOutDir RNFS_exists RNFS_mkdir d fs1 = Inr (dir, fs1)
         \<and> dir = outDir d \<and> RNFS_exists fs1 (outDir d) = Inr True
         \<and> (writable fs0 \<or> outDir d \<in> dirs fs0 \<longrightarrow>
              ensureOutDir fs_exists fs_mkdir d fs0
                = Inr (outDir d, fs0\<lparr>dirs := insert (outDir d) (dirs fs0)\<rparr>)
            \<and> ensureOutDir fs_exists fs_mkdir d (fs0\<lparr>dirs := insert (outDir d) (dirs fs0)\<rparr>)
                = Inr (outDir d, fs0\<lparr>dirs := insert (outDir d) (dirs fs0)\<rparr>))"
proof -
  have general: "ensureOutDir RNFS_exists RNFS_mkdir d fs1 = Inr (dir, fs1)
         \<and> dir = outDir d \<and> RNFS_exists fs1 (outDir d) = Inr True"
    using first contract
    by (auto simp: ensureOutDir_def split: sum.splits if_splits)
  have "fs0\<lparr>dirs := insert (outDir d) (dirs fs0)\<rparr> = fs0" if "outDir d \<in> dirs fs0"
    using that by (simp add: insert_absorb)
  then have concrete: "writable fs0 \<or> outDir d \<in> dirs fs0 \<longrightarrow>
              ensureOutDir fs_exists fs_mkdir d fs0
                = Inr (outDir d, fs0\<lparr>dirs := insert (outDir d) (dirs fs0)\<rparr>)
            \<and> ensureOutDir fs_exists fs_mkdir d (fs0\<lparr>dirs := insert (outDir d) (dirs fs0)\<rparr>)
                = Inr (outDir d, fs0\<lparr>dirs := insert (outDir d) (dirs fs0)\<rparr>)"
    by (auto simp: ensureOutDir_def fs_exists_def fs_mkdir_def)
  from general concrete show ?thesis by blast
qed

theorem ensureOutDir_idempotent_witness:
  "ensureOutDir fs_exists fs_mkdir ''/data/files'' \<lparr>dirs = {}, writable = True\<rparr>
     = Inr (''/data/files/outputs'', \<lparr>dirs = {''/data/files/outputs''}, writable = True\<rparr>)
   \<and> ensureOutDir fs_exists fs_mkdir ''/data/files''
        \<lparr>dirs = {''/data/files/outputs''}, writable = True\<rparr>
     = Inr (''/data/files/outputs'', \<lparr>dirs = {''/data/files/outputs''}, writable = True\<rparr>)
   \<and> writable \<lparr>dirs = {}, writable = True\<rparr>"
proof -
  have first: "ensureOutDir fs_exists fs_mkdir ''/data/files'' \<lparr>dirs = {}, writable = True\<rparr>
     = Inr (''/data/files/outputs'', \<lparr>dirs = {''/data/files/outputs''}, writable = True\<rparr>)"
    by (simp add: ensureOutDir_def fs_exists_def fs_mkdir_def outDir_def)
  have "ensureOutDir fs_exists fs_mkdir ''/data/files''
          \<lparr>dirs = {''/data/files/outputs''}, writable = True\<rparr>
        = Inr (''/data/files/outputs'', \<lparr>dirs = {''/data/files/outputs''}, writable = True\<rparr>)
      \<and> ''/data/files/outputs'' = outDir ''/data/files''
      \<and> fs_exists \<lparr>dirs = {''/data/files/outputs''}, writable = True\<rparr> (outDir ''/data/files'')
          = Inr True
      \<and> (writable \<lparr>dirs = {}, writable = True\<rparr>
            \<or> outDir ''/data/files'' \<in> dirs \<lparr>dirs = {}, writable = True\<rparr> \<longrightarrow>
              ensureOutDir fs_exists fs_mkdir ''/data/files'' \<lparr>dirs = {}, writable = True\<rparr>
                = Inr (outDir ''/data/files'',
                       \<lparr>dirs = {}, writable = True\<rparr>
                         \<lparr>dirs := insert (outDir ''/data/files'')
                                    (dirs \<lparr>dirs = {}, writable = True\<rparr>)\<rparr>)
            \<and> ensureOutDir fs_exists fs_mkdir ''/data/files''
                 (\<lparr>dirs = {}, writable = True\<rparr>
                    \<lparr>dirs := insert (outDir ''/data/files'')
                               (dirs \<lparr>dirs = {}, writable = True\<rparr>)\<rparr>)
                = Inr (outDir ''/data/files'',
                       \<lparr>dirs = {}, writable = True\<rparr>
                         \<lparr>dirs := insert (outDir ''/data/files'')
                                    (dirs \<lparr>dirs = {}, writable = True\<rparr>)\<rparr>))"
  proof (rule ensureOutDir_idempotent [where RNFS_mkdir = fs_mkdir and RNFS_exists = fs_exists])
    show "fs_exists fs' p = Inr True" if "fs_mkdir fs p = Inr fs'" for fs p fs'
      using that by (auto simp: fs_mkdir_def fs_exists_def split: if_splits)
    show "ensureOutDir fs_exists fs_mkdir ''/data/files'' \<lparr>dirs = {}, writable = True\<rparr>
     = Inr (''/data/files/outputs'', \<lparr>dirs = {''/data/files/outputs''}, writable = True\<rparr>)"
      by (rule first)
  qed
  with first show ?thesis by simp
qed

section \<open>The controller\<close>

lemmas controller_defs =
  exec_def init_def onPick_resolved_def onPick_catch_def Alert_alert_def Btn_press_def
  disabled_def truthy_def doSplit_def doCrop_def doBlur_def doEnhance_def withRun_def
  withRun_build_def withRun_done_def withRun_catch_def remove_run_def runFFmpeg_def
  doSplit_buildCmd_def doCrop_buildCmd_def doBlur_buildCmd_def doEnhance_buildCmd_def
  doSplit_pattern_def outDir_def nowStamp_def Let_def

lemma sample_pressed_eq:
  "sample_pressed =
     \<lparr>inputUri = Some ''file:///a.mp4'', busy = Some ''Split (1-minute)'', outputs = [],
      alerts = [(''Video selected'', ''file:///a.mp4'')],
      runs = [\<lparr>run_label = ''Split (1-minute)'', run_preset = Split,
               run_inputUri = ''file:///a.mp4'', run_phase = AwaitOutDir\<rparr>],
      executed = []\<rparr>"
  by (simp add: sample_pressed_def controller_defs)

lemma sample_running_eq:
  "sample_running =
     \<lparr>inputUri = Some ''file:///a.mp4'', busy = Some ''Crop (Square)'',
      outputs = [''/data/files/outputs/crop_2024-01-02T03-04-05-678Z.mp4''],
      alerts = [(''Video selected'', ''file:///a.mp4'')],
      runs = [\<lparr>run_label = ''Crop (Square)'', run_preset = CropSquare,
               run_inputUri = ''file:///a.mp4'', run_phase = AwaitFFmpeg\<rparr>],
      executed = [buildCropSquareCommand ''file:///a.mp4''
                    ''/data/files/outputs/crop_2024-01-02T03-04-05-678Z.mp4'']\<rparr>"
  by (simp add: sample_running_def controller_defs)

subsection \<open>What each stretch of withRun changes\<close>

lemma buildCmd_runs: "runs (snd (buildCmd p d t u s)) = runs s"
  and buildCmd_busy: "busy (snd (buildCmd p d t u s)) = busy s"
  and buildCmd_inputUri: "inputUri (snd (buildCmd p d t u s)) = inputUri s"
  and buildCmd_alerts: "alerts (snd (buildCmd p d t u s)) = alerts s"
  and buildCmd_executed: "executed (snd (buildCmd p d t u s)) = executed s"
  by (cases p; simp add: doSplit_buildCmd_def doCrop_buildCmd_def doBlur_buildCmd_def
        doEnhance_buildCmd_def Let_def)+

lemma buildCmd_outputs:
  "outputs (snd (buildCmd p d t u s)) =
     (case p of
        Split \<Rightarrow> String_replace ''%03d'' ''001..'' (doSplit_pattern d t)
      | CropSquare \<Rightarrow> outDir d @ ''/crop_'' @ nowStamp t @ ''.mp4''
      | Blur \<Rightarrow> outDir d @ ''/blur_'' @ nowStamp t @ ''.mp4''
      | Enhance \<Rightarrow> outDir d @ ''/enhance_'' @ nowStamp t @ ''.mp4'') # outputs s"
  by (cases p)
     (simp_all add: doSplit_buildCmd_def doCrop_buildCmd_def doBlur_buildCmd_def
        doEnhance_buildCmd_def Let_def)

lemma buildCmd_cmd:
  "fst (buildCmd p d t u s) =
     (case p of
        Split \<Rightarrow> buildSplitCommand u (doSplit_pattern d t)
      | CropSquare \<Rightarrow> buildCropSquareCommand u (outDir d @ ''/crop_'' @ nowStamp t @ ''.mp4'')
      | Blur \<Rightarrow> buildBlurCommand u (outDir d @ ''/blur_'' @ nowStamp t @ ''.mp4'')
      | Enhance \<Rightarrow> buildEnhanceCommand u (outDir d @ ''/enhance_'' @ nowStamp t @ ''.mp4''))"
  by (cases p)
     (simp_all add: doSplit_buildCmd_def doCrop_buildCmd_def doBlur_buildCmd_def
        doEnhance_buildCmd_def Let_def)

lemma withRun_build_outputs:
  "outputs (withRun_build d t k s)
   = outputs (snd (buildCmd (run_preset (runs s ! k)) d t (run_inputUri (runs s ! k)) s))"
  by (simp add: withRun_build_def runFFmpeg_def Let_def split_beta)

lemma withRun_build_executed:
  "executed (withRun_build d t k s)
   = executed s @ [fst (buildCmd (run_preset (runs s ! k)) d t (run_inputUri (runs s ! k)) s)]"
  by (simp add: withRun_build_def runFFmpeg_def Let_def split_beta buildCmd_executed)

lemma withRun_build_runs:
  "runs (withRun_build d t k s) = (runs s)[k := (runs s ! k)\<lparr>run_phase := AwaitFFmpeg\<rparr>]"
  by (simp add: withRun_build_def runFFmpeg_def Let_def split_beta buildCmd_runs)

lemma withRun_done_fields:
  "busy (withRun_done ok logs k s) = None"
  "outputs (withRun_done ok logs k s) = outputs s"
  "executed (withRun_done ok logs k s) = executed s"
  "alerts (withRun_done ok logs k s) = alerts s @
     [if ok then (run_label (runs s ! k) @ '' done'', ''Check the output paths below.'')
      else (run_label (runs s ! k) @ '' failed'', take 2000 logs)]"
  by (simp_all add: withRun_done_def remove_run_def Alert_alert_def Let_def)

lemma withRun_catch_fields:
  "busy (withRun_catch m k s) = None"
  "outputs (withRun_catch m k s) = outputs s"
  "executed (withRun_catch m k s) = executed s"
  "alerts (withRun_catch m k s) = alerts s @ [(run_label (runs s ! k) @ '' error'', m)]"
  by (simp_all add: withRun_catch_def remove_run_def Alert_alert_def Let_def)

lemma press_outputs: "outputs (Btn_press p s) = outputs s"
  by (cases p)
     (simp_all add: Btn_press_def withRun_def Alert_alert_def doSplit_def doCrop_def
        doBlur_def doEnhance_def)

lemma step_outputs_suffix: "suffix (outputs s) (outputs (step d s e))"
  by (cases e)
     (simp_all add: press_outputs onPick_resolved_def onPick_catch_def Alert_alert_def
        withRun_done_fields withRun_catch_fields withRun_build_outputs buildCmd_outputs
        suffix_ConsI)

subsection \<open>The single slot is kept by every event\<close>

lemma single_slot_init: "single_slot init"
  by (simp add: single_slot_def init_def)

lemma single_slot_press: "single_slot s \<Longrightarrow> single_slot (Btn_press p s)"
  by (cases p)
     (auto simp: single_slot_def Btn_press_def disabled_def withRun_def truthy_def
        Alert_alert_def doSplit_def doCrop_def doBlur_def doEnhance_def
        split: list.splits option.splits)

lemma single_slot_build:
  "single_slot s \<Longrightarrow> k < length (runs s) \<Longrightarrow> single_slot (withRun_build d t k s)"
  by (auto simp: single_slot_def withRun_build_def runFFmpeg_def Let_def split_beta
        buildCmd_runs buildCmd_busy buildCmd_inputUri split: list.splits)

lemma single_slot_done:
  "single_slot s \<Longrightarrow> k < length (runs s) \<Longrightarrow> single_slot (withRun_done ok logs k s)"
  by (auto simp: single_slot_def withRun_done_def remove_run_def Alert_alert_def Let_def
        split: list.splits)

lemma single_slot_catch:
  "single_slot s \<Longrightarrow> k < length (runs s) \<Longrightarrow> single_slot (withRun_catch m k s)"
  by (auto simp: single_slot_def withRun_catch_def remove_run_def Alert_alert_def Let_def
        split: list.splits)

lemma single_slot_pick:
  "single_slot s \<Longrightarrow> single_slot (onPick_resolved u s)"
  "single_slot s \<Longrightarrow> single_slot (onPick_catch c m s)"
  by (auto simp: single_slot_def onPick_resolved_def onPick_catch_def Alert_alert_def
        split: list.splits)

lemma single_slot_step: "single_slot s \<Longrightarrow> single_slot (step d s e)"
  by (cases e)
     (simp_all add: single_slot_press single_slot_build single_slot_done single_slot_catch
        single_slot_pick)

lemma single_slot_foldl: "single_slot s \<Longrightarrow> single_slot (foldl (step d) s evs)"
  by (induction evs arbitrary: s) (simp_all add: single_slot_step)

lemma single_slot_exec: "single_slot (exec d evs)"
  by (simp add: exec_def single_slot_foldl single_slot_init)

lemma single_slot_in_flight: "single_slot s \<Longrightarrow> in_flight s \<le> 1"
  by (auto simp: single_slot_def in_flight_def split: list.splits)

lemma single_slot_runs: "single_slot s \<Longrightarrow> length (runs s) \<le> 1"
  by (auto simp: single_slot_def split: list.splits)

lemma single_slot_busy_press: "single_slot s \<Longrightarrow> busy s \<noteq> None \<Longrightarrow> Btn_press p s = s"
  by (auto simp: single_slot_def Btn_press_def disabled_def truthy_def split: list.splits)

subsection \<open>One run at a time\<close>

text \<open>
  C1. In every state the screen can reach, at most one invocation of the engine is in
  flight (and at most one invocation of \<^verbatim>\<open>withRun\<close> is active at all). If a preset button is
  pressed while \<^verbatim>\<open>busy\<close> is not \<^verbatim>\<open>null\<close>, nothing changes: the button is disabled and
  \<^verbatim>\<open>withRun\<close> is not called, so the run state stays as it is and the engine is not invoked
  a second time.
\<close>

theorem run_while_running_rejected:
  "in_flight (exec d evs) \<le> 1
   \<and> length (runs (exec d evs)) \<le> 1
   \<and> (busy (exec d evs) \<noteq> None \<longrightarrow> step d (exec d evs) (Press p) = exec d evs)"
proof -
  have inv: "single_slot (exec d evs)" by (rule single_slot_exec)
  from inv have "in_flight (exec d evs) \<le> 1" by (rule single_slot_in_flight)
  moreover from inv have "length (runs (exec d evs)) \<le> 1" by (rule single_slot_runs)
  moreover have "busy (exec d evs) \<noteq> None \<longrightarrow> step d (exec d evs) (Press p) = exec d evs"
    using inv by (simp add: single_slot_busy_press)
  ultimately show ?thesis by simp
qed

theorem run_while_running_rejected_witness:
  "busy sample_running = Some ''Crop (Square)''
   \<and> in_flight sample_running = 1
   \<and> step ''/data/files'' sample_running (Press Blur) = sample_running
   \<and> executed (step ''/data/files'' sample_running (Press Blur)) = executed sample_running"
proof -
  have b: "busy sample_running = Some ''Crop (Square)''"
    by (simp add: sample_running_eq)
  have f: "in_flight sample_running = 1"
    by (simp add: sample_running_eq in_flight_def)
  from b have "busy sample_running \<noteq> None" by simp
  with run_while_running_rejected
         [of "''/data/files''"
             "[PickResolved ''file:///a.mp4'', Press CropSquare,
               OutDirResolved 0 ''2024-01-02T03:04:05.678Z'']" Blur]
  have "step ''/data/files'' sample_running (Press Blur) = sample_running"
    by (simp add: sample_running_def)
  with b f show ?thesis by simp
qed

text \<open>
  The gate is the button's. \<^verbatim>\<open>withRun\<close> does not read \<^verbatim>\<open>busy\<close>: a handler called past the
  button in the running sample state would overwrite the label and suspend a second
  invocation.
\<close>

lemma handler_has_no_busy_guard:
  "busy (onPress Blur sample_running) = Some ''Blur''
   \<and> length (runs (onPress Blur sample_running)) = 2"
  by (simp add: sample_running_eq doBlur_def withRun_def truthy_def)

subsection \<open>A failing run\<close>

text \<open>
  C5. A run that fails leaves Running. When the engine's promise resolves with
  \<^verbatim>\<open>ok = false\<close>, \<^verbatim>\<open>busy\<close> becomes \<^verbatim>\<open>null\<close>, the alert \<^verbatim>\<open><label> failed\<close> shows the first 2000
  characters of the log and no more, and the output list is as it was, with the record this
  run put there. When the sequence throws (an awaited promise rejects), \<^verbatim>\<open>busy\<close> becomes
  \<^verbatim>\<open>null\<close>, the alert \<^verbatim>\<open><label> error\<close> shows the error's message, and the output list is as
  it was.
\<close>

theorem failing_run_leaves_running:
  assumes "k < length (runs s)"
  shows "(run_phase (runs s ! k) = AwaitFFmpeg \<longrightarrow>
            busy (step d s (FFmpegResolved k False logs)) = None
          \<and> outputs (step d s (FFmpegResolved k False logs)) = outputs s
          \<and> alerts (step d s (FFmpegResolved k False logs))
              = alerts s @ [(run_label (runs s ! k) @ '' failed'', take 2000 logs)]
          \<and> prefix (take 2000 logs) logs \<and> length (take 2000 logs) \<le> 2000)
       \<and> busy (step d s (Rejected k message)) = None
       \<and> outputs (step d s (Rejected k message)) = outputs s
       \<and> alerts (step d s (Rejected k message))
              = alerts s @ [(run_label (runs s ! k) @ '' error'', message)]"
  using assms by (simp add: withRun_done_fields withRun_catch_fields take_is_prefix)

theorem failing_run_leaves_running_witness:
  "0 < length (runs sample_running) \<and> run_phase (runs sample_running ! 0) = AwaitFFmpeg
   \<and> busy (step ''/data/files'' sample_running (FFmpegResolved 0 False ''moov atom not found'')) = None
   \<and> outputs (step ''/data/files'' sample_running (FFmpegResolved 0 False ''moov atom not found''))
       = [''/data/files/outputs/crop_2024-01-02T03-04-05-678Z.mp4'']
   \<and> alerts (step ''/data/files'' sample_running (FFmpegResolved 0 False ''moov atom not found''))
       = [(''Video selected'', ''file:///a.mp4''), (''Crop (Square) failed'', ''moov atom not found'')]
   \<and> busy (step ''/data/files'' sample_running (Rejected 0 ''session failed'')) = None
   \<and> outputs (step ''/data/files'' sample_running (Rejected 0 ''session failed''))
       = [''/data/files/outputs/crop_2024-01-02T03-04-05-678Z.mp4'']"
proof -
  have h: "0 < length (runs sample_running)"
    and ph: "run_phase (runs sample_running ! 0) = AwaitFFmpeg"
    by (simp_all add: sample_running_eq)
  from failing_run_leaves_running
         [OF h, of "''/data/files''" "''moov atom not found''" "''session failed''"] h ph
  show ?thesis by (simp add: sample_running_eq)
qed

subsection \<open>When the output record is written\<close>

text \<open>
  C6, as the code has it. A press writes no record. For a run whose \<^verbatim>\<open>ensureOutDir\<close>
  resolves, \<^verbatim>\<open>buildCmd\<close> puts one record in front of the output list and the command is then
  handed to the engine, so the record is there before the engine resolves and not after a
  confirmed success. The record is the computed output path for Crop, Blur and Enhance; for
  Split it is the pattern with its first \<^verbatim>\<open>%03d\<close> replaced by \<^verbatim>\<open>001..\<close>, while the command
  gets the pattern itself. The record stays when the run then fails or throws. A run whose
  \<^verbatim>\<open>ensureOutDir\<close> rejects writes no record. No event changes or removes a record that is in
  the list: the old list is a suffix of the new one.
\<close>

theorem record_written_before_engine_resolves:
  assumes "k < length (runs s)" and "run_phase (runs s ! k) = AwaitOutDir"
  shows "outputs (step d s (OutDirResolved k t))
           = (case run_preset (runs s ! k) of
                Split \<Rightarrow> String_replace ''%03d'' ''001..'' (doSplit_pattern d t)
              | CropSquare \<Rightarrow> outDir d @ ''/crop_'' @ nowStamp t @ ''.mp4''
              | Blur \<Rightarrow> outDir d @ ''/blur_'' @ nowStamp t @ ''.mp4''
              | Enhance \<Rightarrow> outDir d @ ''/enhance_'' @ nowStamp t @ ''.mp4'') # outputs s
       \<and> executed (step d s (OutDirResolved k t))
           = executed s @
             [case run_preset (runs s ! k) of
                Split \<Rightarrow> buildSplitCommand (run_inputUri (runs s ! k)) (doSplit_pattern d t)
              | CropSquare \<Rightarrow> buildCropSquareCommand (run_inputUri (runs s ! k))
                                (outDir d @ ''/crop_'' @ nowStamp t @ ''.mp4'')
              | Blur \<Rightarrow> buildBlurCommand (run_inputUri (runs s ! k))
                          (outDir d @ ''/blur_'' @ nowStamp t @ ''.mp4'')
              | Enhance \<Rightarrow> buildEnhanceCommand (run_inputUri (runs s ! k))
                             (outDir d @ ''/enhance_'' @ nowStamp t @ ''.mp4'')]
       \<and> run_phase (runs (step d s (OutDirResolved k t)) ! k) = AwaitFFmpeg
       \<and> outputs (step d (step d s (OutDirResolved k t)) (FFmpegResolved k ok logs))
           = outputs (step d s (OutDirResolved k t))
       \<and> outputs (step d (step d s (OutDirResolved k t)) (Rejected k message))
           = outputs (step d s (OutDirResolved k t))
       \<and> outputs (step d s (Rejected k message)) = outputs s
       \<and> outputs (step d s0 (Press p)) = outputs s0
       \<and> suffix (outputs s0) (outputs (step d s0 e))"
  using assms
  by (simp add: withRun_build_outputs buildCmd_outputs withRun_build_runs
        withRun_build_executed buildCmd_cmd withRun_done_fields withRun_catch_fields
        press_outputs step_outputs_suffix)

theorem record_written_before_engine_resolves_witness:
  "0 < length (runs sample_pressed) \<and> run_phase (runs sample_pressed ! 0) = AwaitOutDir
   \<and> outputs sample_pressed = []
   \<and> outputs (step ''/data/files'' sample_pressed (OutDirResolved 0 ''2024-01-02T03:04:05.678Z''))
       = [''/data/files/outputs/split_2024-01-02T03-04-05-678Z_001...mp4'']
   \<and> run_phase (runs (step ''/data/files'' sample_pressed
                         (OutDirResolved 0 ''2024-01-02T03:04:05.678Z'')) ! 0) = AwaitFFmpeg
   \<and> outputs (step ''/data/files''
                (step ''/data/files'' sample_pressed (OutDirResolved 0 ''2024-01-02T03:04:05.678Z''))
                (FFmpegResolved 0 False ''moov atom not found''))
       = [''/data/files/outputs/split_2024-01-02T03-04-05-678Z_001...mp4'']"
proof -
  have h: "0 < length (runs sample_pressed)"
    and ph: "run_phase (runs sample_pressed ! 0) = AwaitOutDir"
    and pr: "run_preset (runs sample_pressed ! 0) = Split"
    and out: "outputs sample_pressed = []"
    by (simp_all add: sample_pressed_eq)
  have rec: "String_replace ''%03d'' ''001..''
               (doSplit_pattern ''/data/files'' ''2024-01-02T03:04:05.678Z'')
             = ''/data/files/outputs/split_2024-01-02T03-04-05-678Z_001...mp4''"
    by (simp add: doSplit_pattern_def outDir_def nowStamp_def)
  from record_written_before_engine_resolves
         [OF h ph, of "''/data/files''" "''2024-01-02T03:04:05.678Z''" False
            "''moov atom not found''" "''session failed''" init Split "Press Split"]
  have "outputs (step ''/data/files'' sample_pressed (OutDirResolved 0 ''2024-01-02T03:04:05.678Z''))
          = [''/data/files/outputs/split_2024-01-02T03-04-05-678Z_001...mp4'']
      \<and> run_phase (runs (step ''/data/files'' sample_pressed
                         (OutDirResolved 0 ''2024-01-02T03:04:05.678Z'')) ! 0) = AwaitFFmpeg
      \<and> outputs (step ''/data/files''
                (step ''/data/files'' sample_pressed (OutDirResolved 0 ''2024-01-02T03:04:05.678Z''))
                (FFmpegResolved 0 False ''moov atom not found''))
          = [''/data/files/outputs/split_2024-01-02T03-04-05-678Z_001...mp4'']"
    by (simp only: pr out rec preset.case)
  with h ph out show ?thesis by blast
qed

text \<open>
  C6 as stated fails twice. The record of a Split run is not the pattern the command
  gets. And a run with a video selected whose output directory cannot be made (here the
  storage rejects \<^verbatim>\<open>mkdir\<close>) ends with no record in the list.
\<close>

theorem record_counterexample:
  "outputs (step ''/data/files'' sample_pressed (OutDirResolved 0 ''2024-01-02T03:04:05.678Z''))
     = [''/data/files/outputs/split_2024-01-02T03-04-05-678Z_001...mp4'']
   \<and> executed (step ''/data/files'' sample_pressed (OutDirResolved 0 ''2024-01-02T03:04:05.678Z''))
     = [buildSplitCommand ''file:///a.mp4''
          ''/data/files/outputs/split_2024-01-02T03-04-05-678Z_%03d.mp4'']
   \<and> ensureOutDir fs_exists fs_mkdir ''/data/files'' \<lparr>dirs = {}, writable = False\<rparr>
     = Inl ''Directory could not be created''
   \<and> inputUri sample_pressed = Some ''file:///a.mp4''
   \<and> outputs (step ''/data/files'' sample_pressed (Rejected 0 ''Directory could not be created'')) = []
   \<and> runs (step ''/data/files'' sample_pressed (Rejected 0 ''Directory could not be created'')) = []
   \<and> busy (step ''/data/files'' sample_pressed (Rejected 0 ''Directory could not be created'')) = None"
  by (simp add: sample_pressed_eq withRun_build_def withRun_catch_def remove_run_def
        runFFmpeg_def Alert_alert_def doSplit_buildCmd_def doSplit_pattern_def outDir_def
        nowStamp_def ensureOutDir_def fs_exists_def fs_mkdir_def Let_def)

subsection \<open>No video selected\<close>

text \<open>
  C7. With no input reference selected (\<^verbatim>\<open>inputUri\<close> is \<^verbatim>\<open>null\<close>), a run request is rejected
  and changes nothing. Every handler, if called, shows the alert \<^verbatim>\<open>No video\<close> and returns:
  \<^verbatim>\<open>busy\<close>, the output list, the suspended invocations (none is added, so \<^verbatim>\<open>ensureOutDir\<close>
  and the closure with its builder are never called) and the commands handed to the engine
  are as before. The preset buttons are disabled, so a press does not even reach the
  handler. In every state the screen can reach with no input selected, \<^verbatim>\<open>busy\<close> is \<^verbatim>\<open>null\<close>.
\<close>

theorem no_input_rejected:
  assumes "inputUri s = None"
  shows "onPress p s = Alert_alert ''No video'' ''Please pick a video first.'' s
       \<and> busy (onPress p s) = busy s \<and> outputs (onPress p s) = outputs s
       \<and> runs (onPress p s) = runs s \<and> executed (onPress p s) = executed s
       \<and> step d s (Press p) = s
       \<and> (s = exec d evs \<longrightarrow> busy s = None)"
proof -
  have "s = exec d evs \<longrightarrow> busy s = None"
    using assms single_slot_exec [of d evs]
    by (auto simp: single_slot_def split: list.splits)
  moreover have "onPress p s = Alert_alert ''No video'' ''Please pick a video first.'' s"
    using assms
    by (cases p)
       (simp_all add: doSplit_def doCrop_def doBlur_def doEnhance_def withRun_def truthy_def)
  moreover have "step d s (Press p) = s"
    using assms by (simp add: Btn_press_def disabled_def truthy_def)
  ultimately show ?thesis by (simp add: Alert_alert_def)
qed

theorem no_input_rejected_witness:
  "inputUri init = None
   \<and> onPress Split init = init\<lparr>alerts := [(''No video'', ''Please pick a video first.'')]\<rparr>
   \<and> busy (onPress Split init) = None \<and> outputs (onPress Split init) = []
   \<and> runs (onPress Split init) = [] \<and> executed (onPress Split init) = []
   \<and> step ''/data/files'' init (Press Split) = init"
proof -
  have h: "inputUri init = None" by (simp add: init_def)
  from no_input_rejected [OF h, of Split "''/data/files''" "[]"] h
  show ?thesis by (simp add: Alert_alert_def init_def)
qed

end
